theory Spec2Isabelle
  imports Complex_Main "HOL-Library.Finite_Map" "HOL-Library.Word"
begin

section \<open>Values shared by the whole relay\<close>

text \<open>
  Go's \<^verbatim>\<open>[]byte\<close> is a list of 8-bit words; Go's \<^verbatim>\<open>string\<close> (and a byte slice that carries
  JSON text) is a \<^typ>\<open>string\<close>. A Go \<^verbatim>\<open>error\<close> value carries its message.
\<close>

type_synonym byte = "8 word"

datatype go_error = GoError string

fun error_text :: "go_error \<Rightarrow> string" where
  "error_text (GoError m) = m"

text \<open>
  \<^verbatim>\<open>log.Fatal\<close> prints and exits the process; a nil dereference panics. Both end the
  computation and are the left summand of every fallible result.
\<close>

datatype abort = Fatal string | Panic string

text \<open>
  The dynamic values \<^verbatim>\<open>encoding/json\<close> stores into an \<^verbatim>\<open>interface{}\<close>: nil, bool,
  float64 (as the real number it denotes), string, \<^verbatim>\<open>[]interface{}\<close> and
  \<^verbatim>\<open>map[string]interface{}\<close>. A variable of type \<^verbatim>\<open>map[string]interface{}\<close> is either the
  nil map or a map.
\<close>

datatype json =
    JNull
  | JBool bool
  | JNum real
  | JStr string
  | JArr "json list"
  | JObj "(string, json) fmap"

datatype gomap = NilMap | GoMap "(string, json) fmap"

text \<open>Indexing a Go map: a missing key (and any key of the nil map) reads as nil.\<close>

fun go_index :: "gomap \<Rightarrow> string \<Rightarrow> json" where
  "go_index NilMap k = JNull"
| "go_index (GoMap m) k = (case fmlookup m k of None \<Rightarrow> JNull | Some v \<Rightarrow> v)"

text \<open>
  Storing a map variable into an \<^verbatim>\<open>interface{}\<close>. The nil map stored in an interface is
  encoded by \<^verbatim>\<open>json.Marshal\<close> as \<^verbatim>\<open>null\<close>, as the nil interface is, and nothing else in
  the program inspects it.
\<close>

fun as_interface :: "gomap \<Rightarrow> json" where
  "as_interface NilMap = JNull"
| "as_interface (GoMap m) = JObj m"

section \<open>Identity derivation\<close>

subsection \<open>The library function \<^verbatim>\<open>base58.Encode\<close>\<close>

text \<open>
  \<^verbatim>\<open>github.com/mr-tron/base58\<close>, Bitcoin alphabet: every leading zero byte becomes the first
  letter of the alphabet, and the remaining bytes, read as one big-endian number, are
  written in base 58 without leading zero digits.
\<close>

definition BTCAlphabet :: string where
  "BTCAlphabet = ''123456789ABCDEFGHJKLMNPQRSTUVWXYZabcdefghijkmnopqrstuvwxyz''"

definition bytes_value :: "byte list \<Rightarrow> nat" where
  "bytes_value bin = foldl (\<lambda>acc b. 256 * acc + unat b) 0 bin"

function digits58 :: "nat \<Rightarrow> nat list" where
  "digits58 n = (if n = 0 then [] else digits58 (n div 58) @ [n mod 58])"
  by pat_completeness auto
termination
  by (relation "measure id") auto

declare digits58.simps [simp del]

definition base58_Encode :: "byte list \<Rightarrow> string" where
  "base58_Encode bin =
     replicate (length (takeWhile (\<lambda>b. b = 0) bin)) (BTCAlphabet ! 0) @
     map (\<lambda>d. BTCAlphabet ! d) (digits58 (bytes_value bin))"

subsection \<open>Keypair, network handles and the service record\<close>

record Keypair =
  Seed :: "byte list"
  CreatedAt :: string
  LastUsed :: string
  PublicKey :: "byte list"

text \<open>
  The handles of the overlay library, reduced to what this program puts into them or reads
  from them. A host is made from its listen addresses and the private key passed as
  \<^verbatim>\<open>libp2p.Identity\<close>. A subscription is the sequence of results its successive
  \<^verbatim>\<open>Next\<close> calls return; once the sequence is used up, \<^verbatim>\<open>Next\<close> blocks.
\<close>

record AddrInfo =
  ID :: string
  Addrs :: "string list"

record Host =
  ListenAddrs :: "string list"
  Identity :: "byte list"

record PubSub =
  ps_host :: Host

record Topic =
  topic_name :: string

record Message =
  Data :: string

type_synonym Subscription = "(go_error + Message) list"

record Libp2pNodeService =
  did :: string
  keypair :: Keypair
  tunnelAPI :: string
  isGateway :: bool
  node :: "Host option"
  pubsub :: "PubSub option"
  subscribed :: "Subscription option"
  topic :: "Topic option"
  bootstrap :: "string list"
  nodePort :: int

subsection \<open>\<^verbatim>\<open>ToSightDID\<close> and \<^verbatim>\<open>NewLibp2pNodeService\<close>\<close>

definition ToSightDID :: "byte list \<Rightarrow> string" where
  "ToSightDID publicKey =
     (let multicodec = [0xed, 0x01] @ publicKey
      in ''did:sight:hoster:'' @ base58_Encode multicodec)"

definition NewLibp2pNodeService ::
  "Keypair \<Rightarrow> int \<Rightarrow> string \<Rightarrow> bool \<Rightarrow> string list \<Rightarrow> Libp2pNodeService" where
  "NewLibp2pNodeService kp port tunnel gateway bootstrapList =
     (let d = ''gateway'';
          d = (if \<not> gateway then ToSightDID (PublicKey kp) else d)
      in \<lparr> did = d,
           keypair = kp,
           tunnelAPI = tunnel,
           isGateway = gateway,
           node = None,
           pubsub = None,
           subscribed = None,
           topic = None,
           bootstrap = bootstrapList,
           nodePort = port \<rparr>)"

section \<open>The environment: libraries, operating system and network\<close>

text \<open>
  Every call that leaves the program is recorded, in order, in the trace of the world.
\<close>

datatype event =
    Log string
  | SubNext
  | HttpPost string string string
  | Publish string string
  | Connect AddrInfo
  | MkdirAll string

text \<open>
  The library functions the program calls. The JSON functions, the time format, the address
  parser and the key generator are functions of their arguments; a call that reaches the
  network (\<^verbatim>\<open>http.Post\<close>, \<^verbatim>\<open>Publish\<close>, \<^verbatim>\<open>Connect\<close>) is answered by an outcome that
  may also depend on how many events came before it, so that the same call can fail once
  and succeed later. \<^verbatim>\<open>json.Unmarshal\<close> and \<^verbatim>\<open>Decoder.Decode\<close> are the two decoders into
  a \<^verbatim>\<open>map[string]interface{}\<close> variable; the two \<open>Keypair\<close> functions are
  \<^verbatim>\<open>json.Unmarshal\<close> and \<^verbatim>\<open>json.Marshal\<close> at the struct type.
\<close>

record libs =
  json_Unmarshal :: "string \<Rightarrow> go_error + gomap"
  json_Decode :: "string \<Rightarrow> go_error + gomap"
  json_Marshal :: "json \<Rightarrow> go_error + string"
  json_Unmarshal_Keypair :: "string \<Rightarrow> go_error + Keypair"
  json_Marshal_Keypair :: "Keypair \<Rightarrow> go_error + string"
  Format_RFC3339 :: "nat \<Rightarrow> string"
  GenerateKeyPair_result :: "nat \<Rightarrow> go_error + (byte list \<times> byte list)"
  ReadFile_error :: "string \<Rightarrow> go_error option"
  WriteFile_error :: "string \<Rightarrow> go_error option"
  libp2p_New_error :: "string list \<Rightarrow> byte list \<Rightarrow> go_error option"
  host_ID :: "Host \<Rightarrow> string"
  NewGossipSub_error :: "Host \<Rightarrow> go_error option"
  AddrInfoFromString :: "string \<Rightarrow> go_error + AddrInfo"
  Connect_error :: "nat \<Rightarrow> AddrInfo \<Rightarrow> go_error option"
  Join_error :: "string \<Rightarrow> go_error option"
  Subscribe_result :: "Topic \<Rightarrow> go_error + Subscription"
  Publish_error :: "nat \<Rightarrow> string \<Rightarrow> string \<Rightarrow> go_error option"
  Post_error :: "nat \<Rightarrow> string \<Rightarrow> string \<Rightarrow> string \<Rightarrow> go_error option"

text \<open>
  The state outside the program: environment variables, the files and their contents, the
  wall clock in seconds with the amounts by which it advances after each reading, the number
  of key pairs generated so far, and the trace.
\<close>

record world =
  environ :: "string \<Rightarrow> string"
  files :: "string \<rightharpoonup> string"
  now :: nat
  ticks :: "nat list"
  keygen_calls :: nat
  trace :: "event list"

definition emit :: "event \<Rightarrow> world \<Rightarrow> world" where
  "emit e w = w\<lparr>trace := trace w @ [e]\<rparr>"

definition log_Printf :: "string \<Rightarrow> world \<Rightarrow> world" where
  "log_Printf line w = emit (Log line) w"

definition log_Fatal :: "string \<Rightarrow> world \<Rightarrow> (abort + 'a) \<times> world" where
  "log_Fatal line w = (Inl (Fatal line), emit (Log line) w)"

definition http_Post ::
  "libs \<Rightarrow> string \<Rightarrow> string \<Rightarrow> string \<Rightarrow> world \<Rightarrow> go_error option \<times> world" where
  "http_Post L url contentType body w =
     (Post_error L (length (trace w)) url contentType body,
      emit (HttpPost url contentType body) w)"

definition topic_Publish ::
  "libs \<Rightarrow> Topic \<Rightarrow> string \<Rightarrow> world \<Rightarrow> go_error option \<times> world" where
  "topic_Publish L t data w =
     (Publish_error L (length (trace w)) (topic_name t) data,
      emit (Publish (topic_name t) data) w)"

definition host_Connect ::
  "libs \<Rightarrow> Host \<Rightarrow> AddrInfo \<Rightarrow> world \<Rightarrow> go_error option \<times> world" where
  "host_Connect L h info w =
     (Connect_error L (length (trace w)) info, emit (Connect info) w)"

section \<open>The keypair store\<close>

text \<open>
  The operating system calls, on the world. A file exists when it has contents; reading and
  writing a file can fail as the library record says, and a failed write leaves the file as
  it was. Each reading of the clock returns the current second and lets the clock advance by
  the next tick; each call of the key generator takes the next result.
\<close>

definition os_Getenv :: "world \<Rightarrow> string \<Rightarrow> string" where
  "os_Getenv w k = environ w k"

definition os_Stat :: "world \<Rightarrow> string \<Rightarrow> go_error option" where
  "os_Stat w path =
     (case files w path of
        None \<Rightarrow> Some (GoError ''no such file or directory'')
      | Some _ \<Rightarrow> None)"

definition os_ReadFile :: "libs \<Rightarrow> string \<Rightarrow> world \<Rightarrow> go_error + string" where
  "os_ReadFile L path w =
     (case files w path of
        None \<Rightarrow> Inl (GoError ''no such file or directory'')
      | Some contents \<Rightarrow>
          (case ReadFile_error L path of Some err \<Rightarrow> Inl err | None \<Rightarrow> Inr contents))"

definition os_WriteFile :: "libs \<Rightarrow> string \<Rightarrow> string \<Rightarrow> world \<Rightarrow> go_error option \<times> world" where
  "os_WriteFile L path bs w =
     (case WriteFile_error L path of
        Some err \<Rightarrow> (Some err, w)
      | None \<Rightarrow> (None, w\<lparr>files := (files w)(path \<mapsto> bs)\<rparr>))"

definition os_MkdirAll :: "string \<Rightarrow> world \<Rightarrow> world" where
  "os_MkdirAll path w = emit (MkdirAll path) w"

definition time_Now :: "world \<Rightarrow> nat \<times> world" where
  "time_Now w =
     (now w,
      w\<lparr>now := now w + (case ticks w of [] \<Rightarrow> 0 | d # _ \<Rightarrow> d), ticks := tl (ticks w)\<rparr>)"

definition crypto_GenerateKeyPair ::
  "libs \<Rightarrow> world \<Rightarrow> (go_error + (byte list \<times> byte list)) \<times> world" where
  "crypto_GenerateKeyPair L w =
     (GenerateKeyPair_result L (keygen_calls w), w\<lparr>keygen_calls := Suc (keygen_calls w)\<rparr>)"

definition getDataDir :: "world \<Rightarrow> string" where
  "getDataDir w =
     (let dir = os_Getenv w ''SIGHTAI_DATA_DIR''
      in if dir \<noteq> [] then dir @ ''/config''
         else os_Getenv w ''HOME'' @ ''/.sightai/config'')"

definition keyFile_of :: "world \<Rightarrow> string" where
  "keyFile_of w = getDataDir w @ ''/device-keypair.json''"

definition LoadOrGenerateKeypair :: "libs \<Rightarrow> world \<Rightarrow> (abort + Keypair) \<times> world" where
  "LoadOrGenerateKeypair L w =
     (let keyDir = getDataDir w;
          keyFile = keyDir @ ''/device-keypair.json''
      in case os_Stat w keyFile of
           None \<Rightarrow>
             (case os_ReadFile L keyFile w of
                Inl err \<Rightarrow> log_Fatal (''Error reading keypair: '' @ error_text err) w
              | Inr kpStr \<Rightarrow>
                  (case json_Unmarshal_Keypair L kpStr of
                     Inl err \<Rightarrow> log_Fatal (''Error unmarshalling keypair: '' @ error_text err) w
                   | Inr kp \<Rightarrow>
                       (case time_Now w of
                          (t, w1) \<Rightarrow>
                            (let kp = kp\<lparr>LastUsed := Format_RFC3339 L t\<rparr>
                             in case json_Marshal_Keypair L kp of
                                  Inl err \<Rightarrow>
                                    log_Fatal
                                      (''Error marshalling updated keypair: '' @ error_text err) w1
                                | Inr kpStr \<Rightarrow>
                                    (case os_WriteFile L keyFile kpStr w1 of
                                       (Some err, w2) \<Rightarrow>
                                         log_Fatal
                                           (''Error writing updated keypair: '' @ error_text err) w2
                                     | (None, w2) \<Rightarrow>
                                         (Inr kp,
                                          log_Printf (''[KeyPair] Loaded from '' @ keyFile) w2))))))
         | Some _ \<Rightarrow>
             (case crypto_GenerateKeyPair L w of
                (Inl err, w1) \<Rightarrow> log_Fatal (''Error generating keypair: '' @ error_text err) w1
              | (Inr (priv, pub), w1) \<Rightarrow>
                  (case time_Now w1 of
                     (t1, w2) \<Rightarrow>
                       (case time_Now w2 of
                          (t2, w3) \<Rightarrow>
                            (let kp = \<lparr> Seed = priv,
                                        CreatedAt = Format_RFC3339 L t1,
                                        LastUsed = Format_RFC3339 L t2,
                                        PublicKey = pub \<rparr>;
                                 w4 = os_MkdirAll keyDir w3
                             in case json_Marshal_Keypair L kp of
                                  Inl err \<Rightarrow>
                                    log_Fatal (''Error marshalling keypair: '' @ error_text err) w4
                                | Inr kpStr \<Rightarrow>
                                    (case os_WriteFile L keyFile kpStr w4 of
                                       (Some err, w5) \<Rightarrow>
                                         log_Fatal
                                           (''Error writing keypair to file: '' @ error_text err) w5
                                     | (None, w5) \<Rightarrow>
                                         (Inr kp,
                                          log_Printf
                                            (''[KeyPair] Generated new and saved to '' @ keyFile)
                                            w5)))))))"

section \<open>Overlay membership\<close>

text \<open>\<^verbatim>\<open>fmt.Sprintf\<close> with the verb \<^verbatim>\<open>%d\<close>: the decimal digits of an integer.\<close>

function decimal :: "nat \<Rightarrow> string" where
  "decimal n =
     (if n < 10 then [''0123456789'' ! n]
      else decimal (n div 10) @ [''0123456789'' ! (n mod 10)])"
  by pat_completeness auto
termination
  by (relation "measure id") auto

declare decimal.simps [simp del]

definition Sprintf_d :: "int \<Rightarrow> string" where
  "Sprintf_d i = (if i < 0 then CHR ''-'' # decimal (nat (- i)) else decimal (nat i))"

text \<open>The two loops over the bootstrap list: parse every address, then connect to every peer parsed.\<close>

fun parse_loop :: "libs \<Rightarrow> string list \<Rightarrow> AddrInfo list \<Rightarrow> world \<Rightarrow> AddrInfo list \<times> world" where
  "parse_loop L [] peerAddrs w = (peerAddrs, w)"
| "parse_loop L (addr # addrs) peerAddrs w =
     (case AddrInfoFromString L addr of
        Inl err \<Rightarrow>
          parse_loop L addrs peerAddrs
            (log_Printf
               (''Invalid bootstrap addr: '' @ addr @ '' ('' @ error_text err @ '')'') w)
      | Inr info \<Rightarrow> parse_loop L addrs (peerAddrs @ [info]) w)"

fun connect_loop :: "libs \<Rightarrow> Host \<Rightarrow> AddrInfo list \<Rightarrow> world \<Rightarrow> world" where
  "connect_loop L host [] w = w"
| "connect_loop L host (info # infos) w =
     (case host_Connect L host info w of
        (Some err, w') \<Rightarrow>
          connect_loop L host infos
            (log_Printf (''Failed to connect to '' @ ID info @ '': '' @ error_text err) w')
      | (None, w') \<Rightarrow>
          connect_loop L host infos
            (log_Printf (''Connected to bootstrap peer: '' @ ID info) w'))"

definition CreateLibp2pNode ::
  "libs \<Rightarrow> int \<Rightarrow> string list \<Rightarrow> world \<Rightarrow> (abort + Host \<times> PubSub) \<times> world" where
  "CreateLibp2pNode L port bootstrapList w =
     (case crypto_GenerateKeyPair L w of
        (Inl err, w1) \<Rightarrow> log_Fatal (''Failed to generate keypair: '' @ error_text err) w1
      | (Inr (priv, pub), w1) \<Rightarrow>
          (let addrs = [''/ip4/0.0.0.0/tcp/'' @ Sprintf_d port]
           in case libp2p_New_error L addrs priv of
                Some err \<Rightarrow> log_Fatal (''Failed to create libp2p host: '' @ error_text err) w1
              | None \<Rightarrow>
                  (let host = \<lparr> ListenAddrs = addrs, Identity = priv \<rparr>;
                       w2 = log_Printf
                              (''Libp2p Host created with peer ID: '' @ host_ID L host) w1
                   in case NewGossipSub_error L host of
                        Some err \<Rightarrow>
                          log_Fatal (''Failed to create pubsub service: '' @ error_text err) w2
                      | None \<Rightarrow>
                          (let pubsubService = \<lparr> ps_host = host \<rparr>;
                               w3 = (if length bootstrapList > 0
                                     then (case parse_loop L bootstrapList [] w2 of
                                             (peerAddrs, w') \<Rightarrow> connect_loop L host peerAddrs w')
                                     else w2)
                           in (Inr (host, pubsubService), w3)))))"

text \<open>
  \<^verbatim>\<open>InitNode\<close> fills the service's host, topic and subscription; its last statement starts
  \<^verbatim>\<open>handleIncomingMessages\<close> as a goroutine on the service it returns.
\<close>

definition InitNode :: "libs \<Rightarrow> Libp2pNodeService \<Rightarrow> world \<Rightarrow> (abort + Libp2pNodeService) \<times> world" where
  "InitNode L s w =
     (case CreateLibp2pNode L (nodePort s) (bootstrap s) w of
        (Inl a, w1) \<Rightarrow> (Inl a, w1)
      | (Inr (host, ps), w1) \<Rightarrow>
          (let s = s\<lparr>node := Some host\<rparr>
           in case Join_error L ''sight-message'' of
                Some err \<Rightarrow> log_Fatal (''Failed to join topic: '' @ error_text err) w1
              | None \<Rightarrow>
                  (let t = \<lparr> topic_name = ''sight-message'' \<rparr>;
                       s = s\<lparr>topic := Some t\<rparr>
                   in case Subscribe_result L t of
                        Inl err \<Rightarrow>
                          log_Fatal (''Failed to subscribe to topic: '' @ error_text err) w1
                      | Inr sub \<Rightarrow> (Inr (s\<lparr>subscribed := Some sub\<rparr>), w1))))"

text \<open>Reading a trace: the connect attempts, in order.\<close>

fun connects :: "event list \<Rightarrow> AddrInfo list" where
  "connects [] = []"
| "connects (Connect info # es) = info # connects es"
| "connects (_ # es) = connects es"

text \<open>The private keys a node holds: the seed of its keypair and the identity key of its host.\<close>

definition private_keys :: "Libp2pNodeService \<Rightarrow> byte list list" where
  "private_keys s =
     Seed (keypair s) # (case node s of None \<Rightarrow> [] | Some host \<Rightarrow> [Identity host])"

section \<open>The message router\<close>

subsection \<open>Inbound: \<^verbatim>\<open>handleIncomingMessages\<close>\<close>

text \<open>
  The loop of \<^verbatim>\<open>handleIncomingMessages\<close> over the results of the successive \<^verbatim>\<open>Next\<close> calls.
  Each \<^verbatim>\<open>continue\<close>, and the end of the loop body, is the recursive call; \<^verbatim>\<open>return\<close> ends
  the loop with \<open>Returned\<close>. When the results are used up the next \<^verbatim>\<open>Next\<close> call does not
  return: the loop is \<open>Blocked\<close>.
\<close>

datatype loop_end = Returned | Blocked

fun inbound_loop ::
  "libs \<Rightarrow> Libp2pNodeService \<Rightarrow> Subscription \<Rightarrow> world \<Rightarrow> loop_end \<times> world" where
  "inbound_loop L s [] w = (Blocked, w)"
| "inbound_loop L s (Inl err # rest) w =
     (Returned, log_Printf (''PubSub error: '' @ error_text err) (emit SubNext w))"
| "inbound_loop L s (Inr msg # rest) w =
     (let w = emit SubNext w in
      case json_Unmarshal L (Data msg) of
        Inl err \<Rightarrow>
          inbound_loop L s rest (log_Printf (''Invalid message format: '' @ error_text err) w)
      | Inr payload \<Rightarrow>
          if go_index payload ''to'' \<noteq> JStr (did s) then inbound_loop L s rest w
          else
            (case json_Marshal L (go_index payload ''payload'') of
               Inl err \<Rightarrow>
                 inbound_loop L s rest
                   (log_Printf (''Error marshalling payload: '' @ error_text err) w)
             | Inr buf \<Rightarrow>
                 (case http_Post L (tunnelAPI s) ''application/json'' buf w of
                    (Some err, w') \<Rightarrow>
                      inbound_loop L s rest
                        (log_Printf (''Forward error: '' @ error_text err) w')
                  | (None, w') \<Rightarrow> inbound_loop L s rest w')))"

text \<open>The method itself reads the subscription field; on a nil subscription \<^verbatim>\<open>Next\<close> panics.\<close>

definition handleIncomingMessages ::
  "libs \<Rightarrow> Libp2pNodeService \<Rightarrow> world \<Rightarrow> (abort + loop_end) \<times> world" where
  "handleIncomingMessages L s w =
     (case subscribed s of
        None \<Rightarrow> (Inl (Panic ''nil pointer dereference''), w)
      | Some sub \<Rightarrow> (case inbound_loop L s sub w of (e, w') \<Rightarrow> (Inr e, w')))"

subsection \<open>Outbound: \<^verbatim>\<open>HandleOutgoingMessage\<close> and \<^verbatim>\<open>SendHandler\<close>\<close>

definition HandleOutgoingMessage ::
  "libs \<Rightarrow> Libp2pNodeService \<Rightarrow> gomap \<Rightarrow> world \<Rightarrow> (abort + unit) \<times> world" where
  "HandleOutgoingMessage L s msg w =
     (case json_Marshal L (as_interface msg) of
        Inl err \<Rightarrow>
          (Inr (), log_Printf (''Error marshalling outgoing message: '' @ error_text err) w)
      | Inr data \<Rightarrow>
          (case topic s of
             None \<Rightarrow> (Inl (Panic ''nil pointer dereference''), w)
           | Some t \<Rightarrow>
               (case topic_Publish L t data w of
                  (Some err, w') \<Rightarrow>
                    (Inr (), log_Printf (''Error publishing message: '' @ error_text err) w')
                | (None, w') \<Rightarrow> (Inr (), w'))))"

text \<open>
  The controller holds the service. A \<^verbatim>\<open>http.ResponseWriter\<close> is its header map, the status
  once written, and the body written so far; the first write without a status sets 200, and
  a handler that returns without writing leaves the server to answer 200 as well.
\<close>

record Libp2pNodeController =
  service :: Libp2pNodeService

record Request =
  Body :: string

record ResponseWriter =
  Header :: "(string \<times> string) list"
  status :: "nat option"
  written :: string

definition Header_Set :: "string \<Rightarrow> string \<Rightarrow> ResponseWriter \<Rightarrow> ResponseWriter" where
  "Header_Set k v rw = rw\<lparr>Header := AList.update k v (Header rw)\<rparr>"

definition WriteHeader :: "nat \<Rightarrow> ResponseWriter \<Rightarrow> ResponseWriter" where
  "WriteHeader code rw = (if status rw = None then rw\<lparr>status := Some code\<rparr> else rw)"

definition Write :: "string \<Rightarrow> ResponseWriter \<Rightarrow> ResponseWriter" where
  "Write bs rw = (let rw = WriteHeader 200 rw in rw\<lparr>written := written rw @ bs\<rparr>)"

definition http_Error :: "string \<Rightarrow> nat \<Rightarrow> ResponseWriter \<Rightarrow> ResponseWriter" where
  "http_Error msg code rw =
     Write (msg @ [CHR 0x0A])
       (WriteHeader code
         (Header_Set ''X-Content-Type-Options'' ''nosniff''
           (Header_Set ''Content-Type'' ''text/plain; charset=utf-8'' rw)))"

definition Encoder_Encode :: "libs \<Rightarrow> json \<Rightarrow> ResponseWriter \<Rightarrow> ResponseWriter" where
  "Encoder_Encode L v rw =
     (case json_Marshal L v of
        Inl err \<Rightarrow> rw
      | Inr bs \<Rightarrow> Write (bs @ [CHR 0x0A]) rw)"

definition response_status :: "ResponseWriter \<Rightarrow> nat" where
  "response_status rw = (case status rw of None \<Rightarrow> 200 | Some code \<Rightarrow> code)"

definition SendHandler ::
  "libs \<Rightarrow> Libp2pNodeController \<Rightarrow> ResponseWriter \<Rightarrow> Request \<Rightarrow> world
     \<Rightarrow> (abort + ResponseWriter) \<times> world" where
  "SendHandler L c rw r w =
     (case json_Decode L (Body r) of
        Inl err \<Rightarrow> (Inr (http_Error ''Invalid JSON'' 400 rw), w)
      | Inr tunnelMsg \<Rightarrow>
          (let libp2pMsg = GoMap (fmap_of_list
                 [(''to'', go_index tunnelMsg ''to''),
                  (''payload'', as_interface tunnelMsg)])
           in case HandleOutgoingMessage L (service c) libp2pMsg w of
                (Inl a, w') \<Rightarrow> (Inl a, w')
              | (Inr _, w') \<Rightarrow>
                  (Inr (Encoder_Encode L (JObj (fmap_of_list [(''status'', JStr ''ok'')]))
                         (Header_Set ''Content-Type'' ''application/json'' rw)),
                   w')))"

text \<open>Reading a trace: the tunnel calls and the published data, in order.\<close>

fun tunnel_calls :: "event list \<Rightarrow> (string \<times> string \<times> string) list" where
  "tunnel_calls [] = []"
| "tunnel_calls (HttpPost url ct body # es) = (url, ct, body) # tunnel_calls es"
| "tunnel_calls (_ # es) = tunnel_calls es"

fun published :: "event list \<Rightarrow> (string \<times> string) list" where
  "published [] = []"
| "published (Publish t data # es) = (t, data) # published es"
| "published (_ # es) = published es"

fun pulls :: "event list \<Rightarrow> nat" where
  "pulls [] = 0"
| "pulls (SubNext # es) = Suc (pulls es)"
| "pulls (_ # es) = pulls es"

subsection \<open>The envelope contract, in the words of the specification\<close>

text \<open>
  A message is addressed to identity \<open>d\<close> when it decodes to an envelope whose \<open>to\<close> field is
  the string \<open>d\<close>; the body forwarded for it is the encoding of its \<open>payload\<close> field alone.
\<close>

definition addressed_to :: "libs \<Rightarrow> string \<Rightarrow> Message \<Rightarrow> bool" where
  "addressed_to L d m =
     (case json_Unmarshal L (Data m) of
        Inl _ \<Rightarrow> False
      | Inr envelope \<Rightarrow> go_index envelope ''to'' = JStr d)"

definition tunnel_body :: "libs \<Rightarrow> Message \<Rightarrow> go_error + string" where
  "tunnel_body L m =
     (case json_Unmarshal L (Data m) of
        Inl err \<Rightarrow> Inl err
      | Inr envelope \<Rightarrow> json_Marshal L (go_index envelope ''payload''))"

text \<open>The world after one iteration of the loop on a message.\<close>

definition after_message :: "libs \<Rightarrow> Libp2pNodeService \<Rightarrow> Message \<Rightarrow> world \<Rightarrow> world" where
  "after_message L s m w = snd (inbound_loop L s [Inr m] w)"

section \<open>Properties\<close>

subsection \<open>Identity derivation\<close>


lemma base58_test_vector:
  "base58_Encode [0, 0, 0x28, 0x7f, 0xb4, 0xcd] = ''11233QC4''"
  by (simp add: base58_Encode_def bytes_value_def digits58.simps BTCAlphabet_def)

text \<open>
  Claim C4. The identity of a node is a function of the public key and the gateway flag
  alone: for a gateway it is the literal \<open>gateway\<close> whatever the key, for any other node it
  is the namespace prefix \<open>did:sight:hoster:\<close> followed by the base58 encoding of the two
  bytes 0xed 0x01 and then the raw public key; the other constructor arguments and the
  other keypair fields do not enter it, so equal inputs give the same identity.
\<close>

theorem identity_derivation:
  "did (NewLibp2pNodeService kp port tunnel True bs) = ''gateway'' \<and>
   did (NewLibp2pNodeService kp port tunnel False bs) =
     ''did:sight:hoster:'' @ base58_Encode (0xed # 0x01 # PublicKey kp) \<and>
   did (NewLibp2pNodeService kp port tunnel g bs) =
     did (NewLibp2pNodeService
            \<lparr> Seed = seed', CreatedAt = created', LastUsed = used', PublicKey = PublicKey kp \<rparr>
            port' tunnel' g bs')"
  by (simp add: NewLibp2pNodeService_def ToSightDID_def)

subsection \<open>The inbound loop\<close>

lemma tunnel_calls_append [simp]:
  "tunnel_calls (xs @ ys) = tunnel_calls xs @ tunnel_calls ys"
  by (induction xs rule: tunnel_calls.induct) simp_all

lemma pulls_append [simp]: "pulls (xs @ ys) = pulls xs + pulls ys"
  by (induction xs rule: pulls.induct) simp_all

lemma published_append [simp]: "published (xs @ ys) = published xs @ published ys"
  by (induction xs rule: published.induct) simp_all

lemma trace_emit [simp]: "trace (emit e w) = trace w @ [e]"
  by (simp add: emit_def)

lemma trace_log_Printf [simp]: "trace (log_Printf l w) = trace w @ [Log l]"
  by (simp add: log_Printf_def)

lemma http_Post_world [simp]:
  "snd (http_Post L url ct body w) = emit (HttpPost url ct body) w"
  by (simp add: http_Post_def)

lemma inbound_loop_step:
  "inbound_loop L s (Inr m # rest) w = inbound_loop L s rest (after_message L s m w)"
  by (simp add: after_message_def Let_def split: sum.splits prod.splits option.splits)

lemma tunnel_calls_after_message:
  "tunnel_calls (trace (after_message L s m w)) =
     tunnel_calls (trace w) @
       (if addressed_to L (did s) m
        then (case tunnel_body L m of Inl _ \<Rightarrow> [] | Inr b \<Rightarrow> [(tunnelAPI s, ''application/json'', b)])
        else [])"
  by (auto simp add: after_message_def Let_def addressed_to_def tunnel_body_def http_Post_def
      split: sum.splits prod.splits option.splits)

lemma pulls_after_message: "pulls (trace (after_message L s m w)) = Suc (pulls (trace w))"
  by (auto simp add: after_message_def Let_def http_Post_def
      split: sum.splits prod.splits option.splits)

lemma inbound_loop_messages:
  "inbound_loop L s (map Inr msgs @ fin) w =
     inbound_loop L s fin (fold (after_message L s) msgs w)"
  by (induction msgs arbitrary: w) (simp_all only: inbound_loop_step list.map append.simps fold_simps)

lemma tunnel_calls_fold_after:
  assumes "\<forall>m\<in>set msgs. addressed_to L (did s) m \<longrightarrow> \<not> isl (tunnel_body L m)"
  shows "tunnel_calls (trace (fold (after_message L s) msgs w)) =
           tunnel_calls (trace w) @
             map (\<lambda>m. (tunnelAPI s, ''application/json'', projr (tunnel_body L m)))
               (filter (addressed_to L (did s)) msgs)"
  using assms
proof (induction msgs arbitrary: w)
  case Nil
  then show ?case by simp
next
  case (Cons m msgs)
  have step: "tunnel_calls (trace (after_message L s m w)) =
      tunnel_calls (trace w) @
        (if addressed_to L (did s) m
         then [(tunnelAPI s, ''application/json'', projr (tunnel_body L m))] else [])"
  proof (cases "addressed_to L (did s) m")
    case True
    with Cons.prems have "\<not> isl (tunnel_body L m)" by simp
    then obtain b where "tunnel_body L m = Inr b" by (cases "tunnel_body L m") auto
    with True show ?thesis by (simp add: tunnel_calls_after_message)
  next
    case False
    then show ?thesis by (simp add: tunnel_calls_after_message)
  qed
  from Cons.prems have rest: "\<forall>m\<in>set msgs. addressed_to L (did s) m \<longrightarrow> \<not> isl (tunnel_body L m)"
    by simp
  show ?case
    by (simp add: Cons.IH [OF rest] step)
qed

lemma tunnel_calls_ending:
  assumes "fin = [] \<or> fin = Inl e # rest"
  shows "tunnel_calls (trace (snd (inbound_loop L s fin w))) = tunnel_calls (trace w)"
  using assms by auto

text \<open>
  Claim C1. Let the subscription deliver the messages \<open>msgs\<close> and then either block or fail.
  The inbound loop issues one POST to the tunnel URL for each message of \<open>msgs\<close> that decodes to
  an envelope addressed to this node's identity, in the order received, with the encoded
  payload as body, and no other tunnel call: with M such messages, exactly M calls are added.
  (\<^verbatim>\<open>json.Marshal\<close> is assumed to succeed on the payloads of the addressed messages.)
\<close>

theorem inbound_filtering:
  assumes ending: "fin = [] \<or> fin = Inl e # rest"
      and encodable: "\<forall>m\<in>set msgs. addressed_to L (did s) m \<longrightarrow> \<not> isl (tunnel_body L m)"
  shows "\<exists>st w'.
           handleIncomingMessages L (s\<lparr>subscribed := Some (map Inr msgs @ fin)\<rparr>) w = (Inr st, w') \<and>
           tunnel_calls (trace w') =
             tunnel_calls (trace w) @
               map (\<lambda>m. (tunnelAPI s, ''application/json'', projr (tunnel_body L m)))
                 (filter (addressed_to L (did s)) msgs) \<and>
           length (tunnel_calls (trace w')) =
             length (tunnel_calls (trace w)) + length (filter (addressed_to L (did s)) msgs)"
proof -
  let ?s = "s\<lparr>subscribed := Some (map Inr msgs @ fin)\<rparr>"
  let ?w1 = "fold (after_message L ?s) msgs w"
  obtain st w' where run: "inbound_loop L ?s fin ?w1 = (st, w')"
    by (cases "inbound_loop L ?s fin ?w1")
  have enc: "\<forall>m\<in>set msgs. addressed_to L (did ?s) m \<longrightarrow> \<not> isl (tunnel_body L m)"
    using encodable by simp
  have "tunnel_calls (trace w') = tunnel_calls (trace ?w1)"
    using tunnel_calls_ending [OF ending, of L ?s ?w1] run by simp
  also have "\<dots> = tunnel_calls (trace w) @
               map (\<lambda>m. (tunnelAPI s, ''application/json'', projr (tunnel_body L m)))
                 (filter (addressed_to L (did s)) msgs)"
    using tunnel_calls_fold_after [OF enc, of w] by simp
  finally have calls: "tunnel_calls (trace w') = tunnel_calls (trace w) @
               map (\<lambda>m. (tunnelAPI s, ''application/json'', projr (tunnel_body L m)))
                 (filter (addressed_to L (did s)) msgs)" .
  have "handleIncomingMessages L ?s w = (Inr st, w')"
    by (simp add: handleIncomingMessages_def inbound_loop_messages run)
  with calls show ?thesis by simp
qed

lemma after_message_trace:
  "\<exists>es. after_message L s m w = w\<lparr>trace := trace w @ SubNext # es\<rparr>"
  by (auto simp add: after_message_def Let_def http_Post_def emit_def log_Printf_def
      split: sum.splits prod.splits option.splits)

lemma loop_end_returned:
  "(fst (inbound_loop L s stream w) = Returned) = (\<exists>r\<in>set stream. isl r)"
proof (induction stream arbitrary: w)
  case Nil
  then show ?case by simp
next
  case (Cons r stream)
  show ?case
  proof (cases r)
    case (Inl e)
    then show ?thesis by simp
  next
    case (Inr m)
    then show ?thesis by (simp only: inbound_loop_step Cons.IH) simp
  qed
qed

lemma loop_pulls:
  "pulls (trace (snd (inbound_loop L s stream w))) =
     pulls (trace w) + length (takeWhile (\<lambda>r. \<not> isl r) stream) +
       (if \<exists>r\<in>set stream. isl r then 1 else 0)"
proof (induction stream arbitrary: w)
  case Nil
  then show ?case by simp
next
  case (Cons r stream)
  show ?case
  proof (cases r)
    case (Inl e)
    then show ?thesis by simp
  next
    case (Inr m)
    then show ?thesis
      by (simp only: inbound_loop_step Cons.IH pulls_after_message) simp
  qed
qed

lemma loop_no_restart:
  "inbound_loop L s (map Inr msgs @ Inl e # rest) w = inbound_loop L s (map Inr msgs @ [Inl e]) w"
  by (simp add: inbound_loop_messages)

lemma inbound_loop_subscribed:
  "inbound_loop L (s\<lparr>subscribed := x\<rparr>) st v = inbound_loop L s st v"
  by (induction L s st v rule: inbound_loop.induct)
     (simp_all add: Let_def split: sum.splits prod.splits option.splits)

lemma handleIncomingMessages_run:
  "handleIncomingMessages L (s\<lparr>subscribed := Some st\<rparr>) v =
     (Inr (fst (inbound_loop L s st v)), snd (inbound_loop L s st v))"
  by (simp add: handleIncomingMessages_def inbound_loop_subscribed split: prod.splits)

text \<open>
  Claim C7. Whatever a message is (undecodable, addressed elsewhere, refused by the tunnel),
  the loop goes on with the rest of the stream from a world that differs only by the events
  of that message. The loop returns exactly when some \<^verbatim>\<open>Next\<close> call fails and otherwise stays
  blocked in \<^verbatim>\<open>Next\<close>; it pulls every message before the first failure, then the failure, and
  nothing after it: what the subscription would deliver after the failure does not matter.
\<close>

theorem inbound_loop_exit:
  fixes L s
  defines "run \<equiv> \<lambda>stream w. handleIncomingMessages L (s\<lparr>subscribed := Some stream\<rparr>) w"
  shows "(\<exists>es. run (Inr m # stream) w = run stream (w\<lparr>trace := trace w @ SubNext # es\<rparr>)) \<and>
         (fst (run stream w) = Inr Returned) = (\<exists>r\<in>set stream. isl r) \<and>
         (fst (run stream w) = Inr Blocked) = (\<not> (\<exists>r\<in>set stream. isl r)) \<and>
         pulls (trace (snd (run stream w))) =
           pulls (trace w) + length (takeWhile (\<lambda>r. \<not> isl r) stream) +
             (if \<exists>r\<in>set stream. isl r then 1 else 0) \<and>
         run (map Inr msgs @ Inl e # rest) w = run (map Inr msgs @ [Inl e]) w"
proof -
  have run_loop: "run st v = (Inr (fst (inbound_loop L s st v)), snd (inbound_loop L s st v))" for st v
    by (simp add: run_def handleIncomingMessages_run)
  obtain es where es: "after_message L s m w = w\<lparr>trace := trace w @ SubNext # es\<rparr>"
    using after_message_trace by blast
  have "run (Inr m # stream) w = run stream (w\<lparr>trace := trace w @ SubNext # es\<rparr>)"
    by (simp only: run_loop inbound_loop_step es)
  then have c1: "\<exists>es. run (Inr m # stream) w = run stream (w\<lparr>trace := trace w @ SubNext # es\<rparr>)" ..
  have c2: "(fst (run stream w) = Inr Returned) = (\<exists>r\<in>set stream. isl r)"
    by (simp add: run_loop loop_end_returned)
  have c3: "(fst (run stream w) = Inr Blocked) = (\<not> (\<exists>r\<in>set stream. isl r))"
    using loop_end_returned [of L s stream w]
    by (cases "fst (inbound_loop L s stream w)") (simp_all add: run_loop)
  have c4: "pulls (trace (snd (run stream w))) =
           pulls (trace w) + length (takeWhile (\<lambda>r. \<not> isl r) stream) +
             (if \<exists>r\<in>set stream. isl r then 1 else 0)"
    by (simp only: run_loop snd_conv loop_pulls)
  have c5: "run (map Inr msgs @ Inl e # rest) w = run (map Inr msgs @ [Inl e]) w"
    using loop_no_restart [of L s msgs e rest w] by (simp only: run_loop)
  from c1 c2 c3 c4 c5 show ?thesis by blast
qed

text \<open>
  Claim C10. A message that decodes to an object whose \<open>to\<close> field is this node's identity and
  that has no \<open>payload\<close> key is not skipped: the loop posts to the tunnel URL with the body
  \<open>null\<close>, the encoding of Go's nil, and goes on with the rest of the stream.
\<close>

theorem missing_payload_forwards_null:
  assumes decoded: "json_Unmarshal L (Data m) = Inr (GoMap obj)"
      and mine: "fmlookup obj ''to'' = Some (JStr (did s))"
      and absent: "fmlookup obj ''payload'' = None"
      and null: "json_Marshal L JNull = Inr ''null''"
  shows "\<exists>es. handleIncomingMessages L (s\<lparr>subscribed := Some (Inr m # stream)\<rparr>) w =
                handleIncomingMessages L (s\<lparr>subscribed := Some stream\<rparr>)
                  (w\<lparr>trace := trace w @
                      [SubNext, HttpPost (tunnelAPI s) ''application/json'' ''null''] @ es\<rparr>) \<and>
              tunnel_calls es = []"
proof -
  have "\<exists>es. after_message L s m w =
          w\<lparr>trace := trace w @ [SubNext, HttpPost (tunnelAPI s) ''application/json'' ''null''] @ es\<rparr>
          \<and> tunnel_calls es = []"
  proof (cases "Post_error L (Suc (length (trace w))) (tunnelAPI s) ''application/json'' ''null''")
    case None
    then have "after_message L s m w =
          w\<lparr>trace := trace w @ [SubNext, HttpPost (tunnelAPI s) ''application/json'' ''null''] @ []\<rparr>"
      using decoded mine absent null
      by (simp add: after_message_def Let_def http_Post_def emit_def log_Printf_def)
    then show ?thesis by (intro exI [of _ "[]"]) simp
  next
    case (Some err)
    then have "after_message L s m w =
          w\<lparr>trace := trace w @ [SubNext, HttpPost (tunnelAPI s) ''application/json'' ''null''] @
                 [Log (''Forward error: '' @ error_text err)]\<rparr>"
      using decoded mine absent null
      by (simp add: after_message_def Let_def http_Post_def emit_def log_Printf_def)
    then show ?thesis
      by (intro exI [of _ "[Log (''Forward error: '' @ error_text err)]"]) simp
  qed
  then obtain es where
    es: "after_message L s m w =
          w\<lparr>trace := trace w @ [SubNext, HttpPost (tunnelAPI s) ''application/json'' ''null''] @ es\<rparr>"
    and quiet: "tunnel_calls es = []" by blast
  have "handleIncomingMessages L (s\<lparr>subscribed := Some (Inr m # stream)\<rparr>) w =
                handleIncomingMessages L (s\<lparr>subscribed := Some stream\<rparr>)
                  (w\<lparr>trace := trace w @
                      [SubNext, HttpPost (tunnelAPI s) ''application/json'' ''null''] @ es\<rparr>)"
    by (simp only: handleIncomingMessages_run inbound_loop_step es)
  with quiet show ?thesis by blast
qed

end
